theory Spec2Isabelle
  imports Complex_Main
begin

section \<open>The GDAL tile driver of rocky (src/rocky/GDAL.cpp)\<close>

text \<open>
  A shallow embedding of the tile-extraction driver: dataset bootstrap (\<open>Driver::open\<close>),
  the pixel/geographic coordinate transforms, the validity policy, the image tile
  compositor (\<open>Driver::createImage\<close>) and the heightfield sampler
  (\<open>Driver::createHeightfield\<close>).

  Conventions of the embedding.
  \<^item> C++ \<open>float\<close> and \<open>double\<close> values are modelled as \<open>real\<close>: arithmetic is exact,
    there is no rounding, no infinity and no NaN. Every statement below is a statement
    about the program's arithmetic read over the reals.
  \<^item> C++ \<open>int\<close> is \<open>int\<close> (signed overflow is undefined behaviour in the source and is
    not modelled); \<open>unsigned\<close> counters that only count upwards from 0 are \<open>nat\<close>; the
    one unsigned subtraction that can wrap (\<open>flippedRow\<close>) is written with its
    \<open>mod 2 ^ 32\<close>.
  \<^item> The GDAL library is external: a dataset and its bands are records whose fields
    hold what the library's accessors return, and a band's \<open>RasterIO\<close> is a function
    field that returns \<open>None\<close> when the read fails.
  \<^item> Member names lose their leading underscore (\<open>_geotransform\<close> is
    \<open>geotransform\<close>).
\<close>

subsection \<open>Numeric helpers\<close>

text \<open>
  Modelled from the spec: \<open>equiv\<close> (rocky/Math.h is not among the sources). The spec
  says that \<open>geoToPixel\<close> "snaps results within 1e-4 of 0 or of the raster's
  width/height to the exact edge value": \<open>equiv a b eps\<close> holds when \<open>a\<close> and \<open>b\<close>
  differ by at most \<open>eps\<close>.
\<close>

definition equiv :: "real \<Rightarrow> real \<Rightarrow> real \<Rightarrow> bool" where
  "equiv a b eps = (\<bar>a - b\<bar> \<le> eps)"

text \<open>
  Modelled from the spec: \<open>clamp\<close> (rocky/Math.h is not among the sources), the usual
  restriction of a value to \<open>[lo, hi]\<close>.
\<close>

definition clamp :: "'a::linorder \<Rightarrow> 'a \<Rightarrow> 'a \<Rightarrow> 'a" where
  "clamp x lo hi = (if x < lo then lo else if x > hi then hi else x)"

text \<open>The conversion \<open>(int)d\<close> of a double: truncation towards zero.\<close>

definition c_int :: "real \<Rightarrow> int" where
  "c_int d = (if d < 0 then \<lceil>d\<rceil> else \<lfloor>d\<rfloor>)"

text \<open>The C library function \<open>round\<close>: to the nearest integer, halves away from zero.\<close>

definition c_round :: "real \<Rightarrow> real" where
  "c_round d = (if d < 0 then real_of_int \<lceil>d - 1 / 2\<rceil> else real_of_int \<lfloor>d + 1 / 2\<rfloor>)"

text \<open>Conversion of an integer to an 8-bit unsigned component (\<open>glm::u8vec4\<close>).\<close>

definition u8 :: "int \<Rightarrow> nat" where
  "u8 i = nat (i mod 256)"

subsection \<open>Data model\<close>

text \<open>A six-parameter affine transform, \<open>double[6]\<close>, read by index.\<close>

type_synonym Transform = "nat \<Rightarrow> real"

text \<open>
  A sample buffer (\<open>unsigned char*\<close>, \<open>short*\<close>, \<open>float*\<close>) is read by index; its
  samples are reals whatever the sample type.
\<close>

type_synonym Buffer = "nat \<Rightarrow> real"

text \<open>\<open>glm::fvec4\<close> and \<open>glm::u8vec4\<close>: the components r, g, b, a.\<close>

type_synonym fvec4 = "real \<times> real \<times> real \<times> real"
type_synonym u8vec4 = "nat \<times> nat \<times> nat \<times> nat"

datatype Interpolation = NEAREST | AVERAGE | BILINEAR | CUBIC | CUBICSPLINE

datatype GDALRIOResampleAlg =
  GRIORA_NearestNeighbour | GRIORA_Bilinear | GRIORA_Cubic | GRIORA_CubicSpline | GRIORA_Average

datatype GDALDataType =
  GDT_Unknown | GDT_Byte | GDT_UInt16 | GDT_Int16 | GDT_UInt32 | GDT_Int32 | GDT_Float32 | GDT_Float64

datatype GDALColorInterp =
  GCI_Undefined | GCI_GrayIndex | GCI_PaletteIndex | GCI_RedBand | GCI_GreenBand | GCI_BlueBand |
  GCI_AlphaBand

datatype GDALPaletteInterp = GPI_Gray | GPI_RGB | GPI_CMYK | GPI_HLS

datatype GDALRWFlag = GF_Read | GF_Write

text \<open>\<open>GDALColorEntry\<close>: four \<open>short\<close> components.\<close>

record GDALColorEntry =
  c1 :: int
  c2 :: int
  c3 :: int
  c4 :: int

text \<open>
  A colour table: \<open>GetColorEntry\<close> returns \<open>None\<close> for the null pointer (no entry for
  the index).
\<close>

record GDALColorTable =
  GetColorEntry :: "int \<Rightarrow> GDALColorEntry option"
  GetPaletteInterpretation :: GDALPaletteInterp

record GDALRasterIOExtraArg =
  eResampleAlg :: GDALRIOResampleAlg
  bFloatingPointWindowValidity :: bool
  dfXOff :: real
  dfYOff :: real
  dfXSize :: real
  dfYSize :: real

text \<open>The arguments of one \<open>GDALRasterBand::RasterIO\<close> call (the buffer apart).\<close>

record RasterIORequest =
  eRWFlag :: GDALRWFlag
  nXOff :: int
  nYOff :: int
  nXSize :: int
  nYSize :: int
  nBufXSize :: int
  nBufYSize :: int
  eBufType :: GDALDataType
  nPixelSpace :: int
  nLineSpace :: int
  psExtraArg :: "GDALRasterIOExtraArg option"

text \<open>
  A raster band, as the driver sees it through GDAL's accessors. \<open>GetNoDataValue\<close> is
  \<open>None\<close> when the call reports no success. \<open>RasterIO\<close> returns the filled buffer, or
  \<open>None\<close> when the read fails (\<open>err != CE_None\<close>): the buffer is then left as it was.
  \<open>InterpolateAtPoint\<close> (GDAL 3.10 and later) is \<open>None\<close> when the call fails or is not
  compiled in; the source falls through to its own sampling in both cases.
\<close>

record GDALRasterBand =
  GetColorInterpretation :: GDALColorInterp
  GetNoDataValue :: "real option"
  GetScale :: real
  GetOffset :: real
  GetRasterDataType :: GDALDataType
  GetColorTable :: GDALColorTable
  GetXSize :: int
  GetYSize :: int
  RasterIO :: "RasterIORequest \<Rightarrow> Buffer option"
  InterpolateAtPoint :: "real \<Rightarrow> real \<Rightarrow> GDALRIOResampleAlg \<Rightarrow> real option"

text \<open>
  A dataset: its raster size, its bands (band 1 first), the name/value pairs of its
  \<open>SUBDATASETS\<close> metadata domain and its \<open>AREA_OR_POINT\<close> metadata item (\<open>None\<close> for
  the null pointer).
\<close>

record GDALDataset =
  RasterXSize :: int
  RasterYSize :: int
  RasterBands :: "GDALRasterBand list"
  SUBDATASETS :: "(string \<times> string) list"
  AREA_OR_POINT :: "string option"

definition GetRasterCount :: "GDALDataset \<Rightarrow> int" where
  "GetRasterCount ds = int (length (RasterBands ds))"

text \<open>\<open>GetRasterBand(i)\<close>: the null pointer (\<open>None\<close>) outside \<open>1..count\<close>.\<close>

definition GetRasterBand :: "GDALDataset \<Rightarrow> int \<Rightarrow> GDALRasterBand option" where
  "GetRasterBand ds i =
     (if 1 \<le> i \<and> i \<le> GetRasterCount ds then Some (RasterBands ds ! nat (i - 1)) else None)"

record Box =
  xmin :: real
  ymin :: real
  xmax :: real
  ymax :: real

text \<open>
  Modelled from the spec: \<open>GeoExtent\<close> (rocky/GeoExtent.cpp is not among the sources).
  An extent is a box in a spatial reference system, of which the driver asks only
  whether it is geodetic. The spec (4.3) says "Compute the geometric intersection of the
  tile's extent and the dataset's extent in the same SRS; if empty, signal
  ResourceUnavailable": the intersection of two extents is the box of their common
  points, and it is valid when it is not empty.
\<close>

record GeoExtent =
  isGeodetic :: bool
  ext :: Box

definition valid :: "GeoExtent \<Rightarrow> bool" where
  "valid e = (xmin (ext e) \<le> xmax (ext e) \<and> ymin (ext e) \<le> ymax (ext e))"

definition width :: "GeoExtent \<Rightarrow> real" where
  "width e = xmax (ext e) - xmin (ext e)"

definition height :: "GeoExtent \<Rightarrow> real" where
  "height e = ymax (ext e) - ymin (ext e)"

definition intersectionSameSRS :: "GeoExtent \<Rightarrow> GeoExtent \<Rightarrow> GeoExtent" where
  "intersectionSameSRS e rhs =
     \<lparr>isGeodetic = isGeodetic e,
      ext = \<lparr>xmin = max (xmin (ext e)) (xmin (ext rhs)), ymin = max (ymin (ext e)) (ymin (ext rhs)),
             xmax = min (xmax (ext e)) (xmax (ext rhs)), ymax = min (ymax (ext e)) (ymax (ext rhs))\<rparr>\<rparr>"

text \<open>A point lies in an extent; two extents intersect when they share a point.\<close>

definition contains :: "GeoExtent \<Rightarrow> real \<Rightarrow> real \<Rightarrow> bool" where
  "contains e x y = (xmin (ext e) \<le> x \<and> x \<le> xmax (ext e) \<and> ymin (ext e) \<le> y \<and> y \<le> ymax (ext e))"

text \<open>
  A tile key: its level and the extent the profile gives it (\<open>key.extent()\<close>;
  rocky/TileKey.cpp is not among the sources, so the extent is carried with the key).
\<close>

record TileKey =
  level :: nat
  extent :: GeoExtent

record IOOptions =
  canceled :: bool

text \<open>The layer options the driver reads through \<open>_layer\<close>.\<close>

record Options =
  interpolation :: Interpolation
  subDataset :: "int option"

text \<open>
  The driver's state after \<open>open\<close>. \<open>NO_DATA_VALUE\<close> is the constant of
  rocky/ElevationLayer.h, which is not among the sources: it is carried as a parameter.
  \<open>noDataValue\<close>, \<open>minValidValue\<close>, \<open>maxValidValue\<close> and \<open>maxDataLevel\<close> are the
  optional settings of the driver.
\<close>

record Driver =
  geotransform :: Transform
  invtransform :: Transform
  warpedDS :: GDALDataset
  bounds :: Box
  extents :: GeoExtent
  linearUnits :: real
  pixelIsArea :: bool
  layer :: Options
  maxDataLevel :: "nat option"
  noDataValue :: "real option"
  minValidValue :: "real option"
  maxValidValue :: "real option"
  NO_DATA_VALUE :: real

text \<open>
  How a call ends when it does not return its value: with one of the codes of \<open>Status\<close>,
  or in undefined behaviour of the source (a null band dereferenced).
\<close>

datatype Failure = ConfigurationError | ResourceUnavailable | GeneralError | UndefinedBehaviour

subsection \<open>CoordinateTransform (GDAL.cpp, lines 699-718)\<close>

definition pixelToGeo :: "Driver \<Rightarrow> real \<Rightarrow> real \<Rightarrow> real \<times> real" where
  "pixelToGeo d x y =
     (geotransform d 0 + geotransform d 1 * x + geotransform d 2 * y,
      geotransform d 3 + geotransform d 4 * x + geotransform d 5 * y)"

definition geoToPixel :: "Driver \<Rightarrow> real \<Rightarrow> real \<Rightarrow> real \<times> real" where
  "geoToPixel d geoX geoY =
     (let x = invtransform d 0 + invtransform d 1 * geoX + invtransform d 2 * geoY;
          y = invtransform d 3 + invtransform d 4 * geoX + invtransform d 5 * geoY;
          eps = 0.0001;
          x = (if equiv x 0 eps then 0 else x);
          y = (if equiv y 0 eps then 0 else y);
          x = (if equiv x (real_of_int (RasterXSize (warpedDS d))) eps
               then real_of_int (RasterXSize (warpedDS d)) else x);
          y = (if equiv y (real_of_int (RasterYSize (warpedDS d))) eps
               then real_of_int (RasterYSize (warpedDS d)) else y)
      in (x, y))"

text \<open>
  \<open>open\<close> fills \<open>_invtransform\<close> with the external call
  \<open>GDALInvGeoTransform(_geotransform, _invtransform)\<close> (line 579). What that call
  delivers when it succeeds is the inverse affine map; over the reals this is the
  following relation between the two coefficient arrays.
\<close>

definition inverse_transform :: "Transform \<Rightarrow> Transform \<Rightarrow> bool" where
  "inverse_transform gt iv =
     (iv 1 * gt 1 + iv 2 * gt 4 = 1 \<and> iv 1 * gt 2 + iv 2 * gt 5 = 0 \<and>
      iv 4 * gt 1 + iv 5 * gt 4 = 0 \<and> iv 4 * gt 2 + iv 5 * gt 5 = 1 \<and>
      iv 0 + iv 1 * gt 0 + iv 2 * gt 3 = 0 \<and>
      iv 3 + iv 4 * gt 0 + iv 5 * gt 3 = 0)"

text \<open>The adjugate formula, which gives such an inverse for every non-singular transform.\<close>

definition adjugate_inverse :: "Transform \<Rightarrow> Transform" where
  "adjugate_inverse gt =
     (let det = gt 1 * gt 5 - gt 2 * gt 4 in
      (\<lambda>i. [(gt 2 * gt 3 - gt 0 * gt 5) / det, gt 5 / det, - gt 2 / det,
             (gt 0 * gt 4 - gt 1 * gt 3) / det, - gt 4 / det, gt 1 / det] ! i))"

subsection \<open>ValidityPolicy (GDAL.cpp, lines 720-780)\<close>

text \<open>
  Modelled from the spec: \<open>option<T>::has_value(v)\<close> (rocky/option.h is not among the
  sources). The spec (4.6) calls a value invalid if it equals "the caller-configured
  override nodata value": the option is set and holds \<open>v\<close>.
\<close>

definition has_value :: "real option \<Rightarrow> real \<Rightarrow> bool" where
  "has_value opt v = (opt = Some v)"

text \<open>\<open>isValidValue(float v, GDALRasterBand* band)\<close>.\<close>

definition isValidValue :: "Driver \<Rightarrow> real \<Rightarrow> GDALRasterBand \<Rightarrow> bool" where
  "isValidValue d v band =
     (let bandNoData = (case GetNoDataValue band of Some nd \<Rightarrow> nd | None \<Rightarrow> - 32767) in
      if bandNoData = v then False
      else if has_value (noDataValue d) v then False
      else if (case minValidValue d of Some m \<Rightarrow> v < m | None \<Rightarrow> False) then False
      else if (case maxValidValue d of Some m \<Rightarrow> v > m | None \<Rightarrow> False) then False
      else True)"

text \<open>\<open>isValidValue(float v, float noDataValue) const\<close>.\<close>

definition isValidValue_nodata :: "Driver \<Rightarrow> real \<Rightarrow> real \<Rightarrow> bool" where
  "isValidValue_nodata d v nd =
     (if nd = v then False
      else if (case minValidValue d of Some m \<Rightarrow> v < m | None \<Rightarrow> False) then False
      else if (case maxValidValue d of Some m \<Rightarrow> v > m | None \<Rightarrow> False) then False
      else True)"

definition getValidElevationValue :: "Driver \<Rightarrow> real \<Rightarrow> real \<Rightarrow> real \<Rightarrow> real" where
  "getValidElevationValue d v noDataValueFromBand replacement =
     (if has_value (noDataValue d) v \<or> noDataValueFromBand = v then replacement
      else if (case minValidValue d of Some m \<Rightarrow> v < m | None \<Rightarrow> False) then replacement
      else if (case maxValidValue d of Some m \<Rightarrow> v > m | None \<Rightarrow> False) then replacement
      else v)"

subsection \<open>Band helpers (GDAL.cpp, lines 29-223 and 1172-1210)\<close>

text \<open>\<open>findBandByColorInterp\<close>: the first band with the colour interpretation, or null.\<close>

definition findBandByColorInterp :: "GDALDataset \<Rightarrow> GDALColorInterp \<Rightarrow> GDALRasterBand option" where
  "findBandByColorInterp ds colorInterp =
     find (\<lambda>band. GetColorInterpretation band = colorInterp) (RasterBands ds)"

text \<open>\<open>Hue_2_RGB\<close> (from easyrgb.com).\<close>

definition Hue_2_RGB :: "real \<Rightarrow> real \<Rightarrow> real \<Rightarrow> real" where
  "Hue_2_RGB v1 v2 vH0 =
     (let vH = (if vH0 < 0 then vH0 + 1 else vH0);
          vH = (if vH > 1 then vH - 1 else vH)
      in if 6 * vH < 1 then v1 + (v2 - v1) * 6 * vH
         else if 2 * vH < 1 then v2
         else if 3 * vH < 2 then v1 + (v2 - v1) * (2 / 3 - vH) * 6
         else v1)"

text \<open>
  \<open>getPalleteIndexColor<glm::u8vec4>\<close>: the success flag and the colour. The four
  palette interpretations are the four values of \<open>GDALPaletteInterp\<close>, so the
  source's last \<open>else\<close> (an unknown interpretation) has no case here. Conversions of a
  \<open>float\<close> to \<open>unsigned char\<close> truncate; a value outside 0..255 (undefined in the
  source) is reduced modulo 256.
\<close>

definition getPalleteIndexColor :: "GDALRasterBand \<Rightarrow> int \<Rightarrow> bool \<times> u8vec4" where
  "getPalleteIndexColor band index =
     (let colorEntry = GetColorEntry (GetColorTable band) index;
          interp = GetPaletteInterpretation (GetColorTable band)
      in case colorEntry of
           None \<Rightarrow> (False, (255, 0, 0, 1))
         | Some e \<Rightarrow>
             (case interp of
                GPI_RGB \<Rightarrow> (True, (u8 (c1 e), u8 (c2 e), u8 (c3 e), u8 (c4 e)))
              | GPI_CMYK \<Rightarrow>
                  (let C = c1 e; M = c2 e; Y = c3 e; K = c4 e
                   in (True, (u8 (255 - C * (255 - K) - K), u8 (255 - M * (255 - K) - K),
                              u8 (255 - Y * (255 - K) - K), 255)))
              | GPI_HLS \<Rightarrow>
                  (let H = real_of_int (c1 e); S = real_of_int (c3 e); L = real_of_int (c2 e);
                       (R, G, B) =
                         (if S = 0 then (L, L, L)
                          else let var_2 = (if L < 0.5 then L * (1 + S) else (L + S) - (S * L));
                                   var_1 = 2 * L - var_2
                               in (Hue_2_RGB var_1 var_2 (H + 1 / 3), Hue_2_RGB var_1 var_2 H,
                                   Hue_2_RGB var_1 var_2 (H - 1 / 3)))
                   in (True, (u8 (c_int (R * 255)), u8 (c_int (G * 255)), u8 (c_int (B * 255)), 255)))
              | GPI_Gray \<Rightarrow>
                  (True, (u8 (c_int (real_of_int (c1 e) * 255)), u8 (c_int (real_of_int (c1 e) * 255)),
                          u8 (c_int (real_of_int (c1 e) * 255)), 255))))"

text \<open>
  \<open>applyScaleAndOffset<T>\<close>: the first \<open>count\<close> samples become
  \<open>static_cast<T>(static_cast<double>(sample) * scale + offset)\<close>. The conversion to a
  floating type keeps the value; the conversion to an integer type truncates towards
  zero (a value outside the range of \<open>T\<close>, undefined in the source, is kept as the
  truncated integer, and a buffer of unsigned samples read through the signed \<open>T\<close> is
  read with its unsigned values).
\<close>

definition static_cast_sample :: "GDALDataType \<Rightarrow> real \<Rightarrow> real" where
  "static_cast_sample T v =
     (if T = GDT_Float32 \<or> T = GDT_Float64 then v else real_of_int (c_int v))"

definition applyScaleAndOffset_T :: "GDALDataType \<Rightarrow> Buffer \<Rightarrow> int \<Rightarrow> real \<Rightarrow> real \<Rightarrow> Buffer" where
  "applyScaleAndOffset_T T data count scale offset =
     (\<lambda>i. if int i < count then static_cast_sample T (data i * scale + offset) else data i)"

text \<open>
  The helper \<open>detail::rasterIO\<close> (lines 148-222): the \<open>switch\<close> on the interpolation
  chooses the resampling algorithm of the extra argument (\<open>INIT_RASTERIO_EXTRA_ARG\<close>
  sets nearest neighbour), the band is read, and on success the band's scale and
  offset are applied to the buffer. The result is the success flag and the buffer.
\<close>

definition rasterIO ::
  "GDALRasterBand \<Rightarrow> GDALRWFlag \<Rightarrow> real \<Rightarrow> real \<Rightarrow> real \<Rightarrow> real \<Rightarrow> Buffer \<Rightarrow> int \<Rightarrow> int \<Rightarrow>
   GDALDataType \<Rightarrow> int \<Rightarrow> int \<Rightarrow> Interpolation \<Rightarrow> bool \<times> Buffer" where
  "rasterIO band rw xoff yoff xsize ysize pData bufx bufy bufType pixelSpace lineSpace interp =
     (let alg = (case interp of
                   AVERAGE \<Rightarrow> GRIORA_Bilinear
                 | BILINEAR \<Rightarrow> GRIORA_Bilinear
                 | CUBIC \<Rightarrow> GRIORA_Cubic
                 | CUBICSPLINE \<Rightarrow> GRIORA_CubicSpline
                 | NEAREST \<Rightarrow> GRIORA_NearestNeighbour);
          extraArg = \<lparr>eResampleAlg = alg, bFloatingPointWindowValidity = True,
                      dfXOff = xoff, dfYOff = yoff, dfXSize = xsize, dfYSize = ysize\<rparr>;
          request = \<lparr>eRWFlag = rw, nXOff = c_int xoff, nYOff = c_int yoff,
                     nXSize = \<lceil>xsize\<rceil>, nYSize = \<lceil>ysize\<rceil>, nBufXSize = bufx, nBufYSize = bufy,
                     eBufType = bufType, nPixelSpace = pixelSpace, nLineSpace = lineSpace,
                     psExtraArg = Some extraArg\<rparr>
      in case RasterIO band request of
           None \<Rightarrow> (False, pData)
         | Some filled \<Rightarrow>
             (let scale = GetScale band; offset = GetOffset band
              in if scale \<noteq> 1 \<or> offset \<noteq> 0
                 then (let count = bufx * bufy
                       in if bufType = GDT_Float32 \<or> bufType = GDT_Float64 \<or> bufType = GDT_Int16 \<or>
                             bufType = GDT_UInt16 \<or> bufType = GDT_Int32 \<or> bufType = GDT_UInt32 \<or>
                             bufType = GDT_Byte
                          then (True, applyScaleAndOffset_T bufType filled count scale offset)
                          else (True, filled))
                 else (True, filled)))"

text \<open>
  The second \<open>applyScaleAndOffset\<close> (lines 1189-1209), used by \<open>createHeightfield\<close>:
  it leaves the unsigned 16- and 32-bit types alone.
\<close>

definition applyScaleAndOffset ::
  "GDALRasterBand \<Rightarrow> Buffer \<Rightarrow> GDALDataType \<Rightarrow> int \<Rightarrow> int \<Rightarrow> Buffer" where
  "applyScaleAndOffset band pData bufType bufx bufy =
     (let scale = GetScale band; offset = GetOffset band
      in if scale \<noteq> 1 \<or> offset \<noteq> 0
         then (let count = bufx * bufy
               in if bufType = GDT_Float32 \<or> bufType = GDT_Float64 \<or> bufType = GDT_Int16 \<or>
                     bufType = GDT_Int32 \<or> bufType = GDT_Byte
                  then applyScaleAndOffset_T bufType pData count scale offset
                  else pData)
         else pData)"

subsection \<open>Images (rocky/Image.h is not among the sources)\<close>

datatype PixelFormat = R8G8B8A8_UNORM | R32_SFLOAT

text \<open>
  Modelled from the spec: \<open>Image\<close>, "a freshly allocated buffer of fixed
  tileSize x tileSize". An image holds one colour for each pixel \<open>(s, t)\<close>;
  \<open>Image::create\<close> followed by the source's \<open>memset\<close> or \<open>fill\<close> gives every pixel the
  fill colour, and \<open>write\<close> (here \<open>writePixel\<close>) stores the colour it is given at its pixel. The colour is
  kept as it is written (its encoding in the pixel format is not modelled), and a
  write outside the image is kept as well.
\<close>

record Image =
  pixelFormat :: PixelFormat
  img_width :: nat
  img_height :: nat
  pixels :: "nat \<times> nat \<Rightarrow> fvec4"

definition create_filled :: "PixelFormat \<Rightarrow> nat \<Rightarrow> nat \<Rightarrow> fvec4 \<Rightarrow> Image" where
  "create_filled fmt w h c = \<lparr>pixelFormat = fmt, img_width = w, img_height = h, pixels = (\<lambda>_. c)\<rparr>"

definition writePixel :: "fvec4 \<Rightarrow> nat \<Rightarrow> nat \<Rightarrow> Image \<Rightarrow> Image" where
  "writePixel c s t img = img\<lparr>pixels := (pixels img)((s, t) := c)\<rparr>"

text \<open>Conversion of an \<open>int\<close> to \<open>unsigned\<close>.\<close>

definition to_unsigned :: "int \<Rightarrow> nat" where
  "to_unsigned i = nat (i mod 2 ^ 32)"

text \<open>
  Freshly allocated buffers (\<open>new unsigned char[n]\<close>) and uninitialised locals hold
  indeterminate values in the source. They are a parameter of the model: the
  indeterminate content of each such variable, by its name.
\<close>

type_synonym Indeterminate = "string \<Rightarrow> Buffer"

subsection \<open>ImageTileCompositor: \<open>Driver::createImage\<close> (GDAL.cpp, lines 788-1170)\<close>

text \<open>
  The two loops that move the intersection's west and east bounds into the longitude
  frame of the georeferencing (lines 826-835).
\<close>

function wrap_up :: "real \<Rightarrow> real \<Rightarrow> real \<Rightarrow> real \<Rightarrow> real \<times> real" where
  "wrap_up west east w bxmin =
     (if west < bxmin then wrap_up (west + 360) ((west + 360) + w) w bxmin else (west, east))"
  by pat_completeness auto
termination
proof (relation "measure (\<lambda>(west, east, w, bxmin). nat \<lceil>(bxmin - west) / 360\<rceil>)")
  show "wf (measure (\<lambda>(west, east, w, bxmin). nat \<lceil>(bxmin - west) / 360\<rceil>))" by simp
next
  fix west east w bxmin :: real
  assume lt: "west < bxmin"
  have e: "(bxmin - (west + 360)) / 360 = (bxmin - west) / 360 - 1" by (simp add: field_simps)
  have "\<lceil>(bxmin - (west + 360)) / 360\<rceil> = \<lceil>(bxmin - west) / 360\<rceil> - 1"
    unfolding e by (rule ceiling_diff_one)
  moreover from lt have "0 < \<lceil>(bxmin - west) / 360\<rceil>" by simp
  ultimately show "((west + 360, west + 360 + w, w, bxmin), (west, east, w, bxmin))
      \<in> measure (\<lambda>(west, east, w, bxmin). nat \<lceil>(bxmin - west) / 360\<rceil>)"
    by simp
qed

function wrap_down :: "real \<Rightarrow> real \<Rightarrow> real \<Rightarrow> real \<Rightarrow> real \<times> real" where
  "wrap_down west east w bxmax =
     (if west > bxmax then wrap_down (west - 360) ((west - 360) + w) w bxmax else (west, east))"
  by pat_completeness auto
termination
proof (relation "measure (\<lambda>(west, east, w, bxmax). nat \<lceil>(west - bxmax) / 360\<rceil>)")
  show "wf (measure (\<lambda>(west, east, w, bxmax). nat \<lceil>(west - bxmax) / 360\<rceil>))" by simp
next
  fix west east w bxmax :: real
  assume lt: "bxmax < west"
  have e: "(west - 360 - bxmax) / 360 = (west - bxmax) / 360 - 1" by (simp add: field_simps)
  have "\<lceil>(west - 360 - bxmax) / 360\<rceil> = \<lceil>(west - bxmax) / 360\<rceil> - 1"
    unfolding e by (rule ceiling_diff_one)
  moreover from lt have "0 < \<lceil>(west - bxmax) / 360\<rceil>" by simp
  ultimately show "((west - 360, west - 360 + w, w, bxmax), (west, east, w, bxmax))
      \<in> measure (\<lambda>(west, east, w, bxmax). nat \<lceil>(west - bxmax) / 360\<rceil>)"
    by simp
qed

declare wrap_up.simps [simp del] wrap_down.simps [simp del]

text \<open>The read window in the source raster and its placement in the tile.\<close>

record Window =
  src_min_x :: real
  src_min_y :: real
  src_width :: real
  src_height :: real
  target_width :: int
  target_height :: int
  tile_offset_left :: int
  tile_offset_top :: int

text \<open>Lines 816-870: the window of a tile key whose intersection with the dataset is given.\<close>

definition readWindow :: "Driver \<Rightarrow> TileKey \<Rightarrow> nat \<Rightarrow> GeoExtent \<Rightarrow> Window" where
  "readWindow d key tileSize intersection =
     (let kxmin = xmin (ext (extent key)); kymax = ymax (ext (extent key));
          west = xmin (ext intersection);
          east = xmax (ext intersection);
          (west, east) =
            (if isGeodetic (extents d)
             then (let (west, east) = wrap_up west east (width intersection) (xmin (bounds d))
                   in wrap_down west east (width intersection) (xmax (bounds d)))
             else (west, east));
          (smin_x, smin_y) = geoToPixel d west (ymax (ext intersection));
          (smax_x, smax_y) = geoToPixel d east (ymin (ext intersection));
          swidth = smax_x - smin_x;
          sheight = smax_y - smin_y;
          rasterWidth = RasterXSize (warpedDS d);
          rasterHeight = RasterYSize (warpedDS d);
          swidth = (if smin_x + swidth > real_of_int rasterWidth
                    then real_of_int rasterWidth - smin_x else swidth);
          sheight = (if smin_y + sheight > real_of_int rasterHeight
                     then real_of_int rasterHeight - smin_y else sheight);
          offset_left = xmin (ext intersection) - kxmin;
          offset_top = kymax - ymax (ext intersection)
      in \<lparr>src_min_x = smin_x, src_min_y = smin_y, src_width = swidth, src_height = sheight,
          target_width = \<lceil>(width intersection / width (extent key)) * real tileSize\<rceil>,
          target_height = \<lceil>(height intersection / height (extent key)) * real tileSize\<rceil>,
          tile_offset_left = \<lfloor>(offset_left / width (extent key)) * real tileSize\<rfloor>,
          tile_offset_top = \<lfloor>(offset_top / height (extent key)) * real tileSize\<rfloor>\<rparr>)"

text \<open>Lines 882-920: the bands by colour interpretation, else by the number of bands.\<close>

record Bands =
  bandRed :: "GDALRasterBand option"
  bandGreen :: "GDALRasterBand option"
  bandBlue :: "GDALRasterBand option"
  bandAlpha :: "GDALRasterBand option"
  bandGray :: "GDALRasterBand option"
  bandPalette :: "GDALRasterBand option"

definition selectBands :: "GDALDataset \<Rightarrow> Bands" where
  "selectBands ds =
     (let bands = \<lparr>bandRed = findBandByColorInterp ds GCI_RedBand,
                   bandGreen = findBandByColorInterp ds GCI_GreenBand,
                   bandBlue = findBandByColorInterp ds GCI_BlueBand,
                   bandAlpha = findBandByColorInterp ds GCI_AlphaBand,
                   bandGray = findBandByColorInterp ds GCI_GrayIndex,
                   bandPalette = findBandByColorInterp ds GCI_PaletteIndex\<rparr>
      in if bandRed bands = None \<and> bandGreen bands = None \<and> bandBlue bands = None \<and>
            bandAlpha bands = None \<and> bandGray bands = None \<and> bandPalette bands = None
         then (if GetRasterCount ds = 3
               then bands\<lparr>bandRed := GetRasterBand ds 1, bandGreen := GetRasterBand ds 2,
                          bandBlue := GetRasterBand ds 3\<rparr>
               else if GetRasterCount ds = 4
               then bands\<lparr>bandRed := GetRasterBand ds 1, bandGreen := GetRasterBand ds 2,
                          bandBlue := GetRasterBand ds 3, bandAlpha := GetRasterBand ds 4\<rparr>
               else if GetRasterCount ds = 1
               then bands\<lparr>bandGray := GetRasterBand ds 1\<rparr>
               else if GetRasterCount ds = 2
               then bands\<lparr>bandGray := GetRasterBand ds 1, bandAlpha := GetRasterBand ds 2\<rparr>
               else bands)
         else bands)"

text \<open>
  The loop nest all branches of \<open>createImage\<close> share: for every sample
  \<open>(src_col, src_row)\<close> of the target window, the colour \<open>pixel src_col src_row\<close> is
  written at column \<open>tile_offset_left + src_col\<close> of row
  \<open>flippedRow = tileSize - (tile_offset_top + src_row) - 1\<close> (an \<open>unsigned\<close>).
\<close>

definition flippedRow :: "nat \<Rightarrow> int \<Rightarrow> nat" where
  "flippedRow tileSize dst_row = to_unsigned (int tileSize - dst_row - 1)"

definition writeWindow :: "nat \<Rightarrow> Window \<Rightarrow> (nat \<Rightarrow> nat \<Rightarrow> fvec4) \<Rightarrow> Image \<Rightarrow> Image" where
  "writeWindow tileSize w pixel img =
     fold (\<lambda>src_row.
             fold (\<lambda>src_col.
                     writePixel (pixel src_col src_row)
                       (to_unsigned (tile_offset_left w + int src_col))
                       (flippedRow tileSize (tile_offset_top w + int src_row)))
                  [0..<nat (target_width w)])
          [0..<nat (target_height w)] img"

text \<open>The index of sample \<open>(src_col, src_row)\<close> in a buffer of the target window.\<close>

definition sampleIndex :: "Window \<Rightarrow> nat \<Rightarrow> nat \<Rightarrow> nat" where
  "sampleIndex w src_col src_row = nat (int src_col + int src_row * target_width w)"

definition div255 :: "fvec4 \<Rightarrow> fvec4" where
  "div255 c = (case c of (r, g, b, a) \<Rightarrow> (r / 255, g / 255, b / 255, a / 255))"

text \<open>Lines 926-977: red, green and blue bands, with an optional alpha band.\<close>

definition createImage_rgb ::
  "Driver \<Rightarrow> Indeterminate \<Rightarrow> nat \<Rightarrow> Window \<Rightarrow> GDALRasterBand \<Rightarrow> GDALRasterBand \<Rightarrow> GDALRasterBand \<Rightarrow>
   GDALRasterBand option \<Rightarrow> Image" where
  "createImage_rgb d mem tileSize w bRed bGreen bBlue bAlpha =
     (let img = create_filled R8G8B8A8_UNORM tileSize tileSize (0, 0, 0, 0);
          read = (\<lambda>band buf. snd (rasterIO band GF_Read (src_min_x w) (src_min_y w) (src_width w)
                    (src_height w) buf (target_width w) (target_height w) GDT_Byte 0 0
                    (interpolation (layer d))));
          red = read bRed (mem ''red'');
          green = read bGreen (mem ''green'');
          blue = read bBlue (mem ''blue'');
          alpha = (case bAlpha of Some band \<Rightarrow> read band (\<lambda>_. 255) | None \<Rightarrow> (\<lambda>_. 255))
      in writeWindow tileSize w
           (\<lambda>src_col src_row.
              let i = sampleIndex w src_col src_row;
                  (r, g, b, a) = div255 (red i, green i, blue i, alpha i)
              in if \<not> isValidValue d r bRed \<or> \<not> isValidValue d g bGreen \<or> \<not> isValidValue d b bBlue \<or>
                    (case bAlpha of Some band \<Rightarrow> \<not> isValidValue d a band | None \<Rightarrow> False)
                 then (r, g, b, 0) else (r, g, b, a))
           img)"

text \<open>
  Lines 979-1108: a gray band. A 16-bit or 32-bit float band is taken for elevation
  and gives an \<open>R32_SFLOAT\<close> image, of which only the first component of a colour is
  stored (the others, indeterminate in the source, are 0 here); any other band gives
  gray with an optional alpha. For a \<open>GDT_UInt16\<close> band the source reads 16-bit
  samples into a \<open>float\<close> buffer; the model takes the samples as they are read.
\<close>

definition createImage_gray ::
  "Driver \<Rightarrow> Indeterminate \<Rightarrow> nat \<Rightarrow> Window \<Rightarrow> GDALRasterBand \<Rightarrow> GDALRasterBand option \<Rightarrow> Image" where
  "createImage_gray d mem tileSize w bGray bAlpha =
     (let gdalDataType = GetRasterDataType bGray;
          isElevation = (gdalDataType = GDT_Int16 \<or> gdalDataType = GDT_UInt16 \<or>
                         gdalDataType = GDT_Float32);
          read = (\<lambda>band buf bufType. snd (rasterIO band GF_Read (src_min_x w) (src_min_y w)
                    (src_width w) (src_height w) buf (target_width w) (target_height w) bufType 0 0
                    (interpolation (layer d))))
      in if isElevation
         then (let img = create_filled R32_SFLOAT tileSize tileSize
                             (NO_DATA_VALUE d, NO_DATA_VALUE d, NO_DATA_VALUE d, NO_DATA_VALUE d)
               in if gdalDataType = GDT_Int16
                  then (let temp = read bGray (mem ''temp'') gdalDataType;
                            noDataValueFromBand =
                              (case GetNoDataValue bGray of
                                 Some nd \<Rightarrow> real_of_int (c_int nd) | None \<Rightarrow> - 32767)
                        in writeWindow tileSize w
                             (\<lambda>src_col src_row.
                                (getValidElevationValue d (temp (sampleIndex w src_col src_row))
                                   noDataValueFromBand (NO_DATA_VALUE d), 0, 0, 0))
                             img)
                  else (let temp = read bGray (mem ''temp'') gdalDataType;
                            noDataValueFromBand =
                              (case GetNoDataValue bGray of Some nd \<Rightarrow> nd | None \<Rightarrow> NO_DATA_VALUE d)
                        in writeWindow tileSize w
                             (\<lambda>src_col src_row.
                                (getValidElevationValue d (temp (sampleIndex w src_col src_row))
                                   noDataValueFromBand (NO_DATA_VALUE d), 0, 0, 0))
                             img))
         else (let img = create_filled R8G8B8A8_UNORM tileSize tileSize (0, 0, 0, 0);
                   gray = read bGray (mem ''gray'') GDT_Byte;
                   alpha = (case bAlpha of Some band \<Rightarrow> Some (read band (\<lambda>_. 255) GDT_Byte)
                                         | None \<Rightarrow> None)
               in writeWindow tileSize w
                    (\<lambda>src_col src_row.
                       let i = sampleIndex w src_col src_row;
                           g = gray i;
                           a = (case alpha of Some buf \<Rightarrow> buf i | None \<Rightarrow> 255)
                       in if \<not> isValidValue d g bGray \<or>
                             (case bAlpha of Some band \<Rightarrow> \<not> isValidValue d a band | None \<Rightarrow> False)
                          then div255 (g, g, g, 0) else div255 (g, g, g, a))
                    img))"

text \<open>
  Lines 1110-1156: a palette band, always read with nearest-neighbour resampling. The
  colour of one sampled index \<open>p\<close> is \<open>paletteColor\<close>.
\<close>

definition paletteColor :: "Driver \<Rightarrow> GDALRasterBand \<Rightarrow> int \<Rightarrow> fvec4" where
  "paletteColor d band p =
     (case getPalleteIndexColor band p of
        (ok, (r, g, b, a)) \<Rightarrow>
          (let a = (if \<not> ok then 0
                    else if \<not> isValidValue d (real r) band then 0
                    else a)
           in div255 (real r, real g, real b, real a)))"

text \<open>The buffer \<open>palette\<close> after the read (line 1118).\<close>

definition paletteBuffer :: "Indeterminate \<Rightarrow> Window \<Rightarrow> GDALRasterBand \<Rightarrow> Buffer" where
  "paletteBuffer mem w bPalette =
     snd (rasterIO bPalette GF_Read (src_min_x w) (src_min_y w) (src_width w) (src_height w)
            (mem ''palette'') (target_width w) (target_height w) GDT_Byte 0 0 NEAREST)"

definition createImage_palette ::
  "Driver \<Rightarrow> Indeterminate \<Rightarrow> nat \<Rightarrow> Window \<Rightarrow> GDALRasterBand \<Rightarrow> Image" where
  "createImage_palette d mem tileSize w bPalette =
     (let img = create_filled R8G8B8A8_UNORM tileSize tileSize (0, 0, 0, 0);
          palette = paletteBuffer mem w bPalette
      in writeWindow tileSize w
           (\<lambda>src_col src_row. paletteColor d bPalette (c_int (palette (sampleIndex w src_col src_row))))
           img)"

definition createImage :: "Driver \<Rightarrow> Indeterminate \<Rightarrow> TileKey \<Rightarrow> nat \<Rightarrow> IOOptions \<Rightarrow> Failure + Image" where
  "createImage d mem key tileSize io =
     (if (case maxDataLevel d of Some m \<Rightarrow> level key > m | None \<Rightarrow> False)
      then Inl ResourceUnavailable
      else if canceled io then Inl ResourceUnavailable
      else let intersection = intersectionSameSRS (extent key) (extents d)
           in if \<not> valid intersection then Inl ResourceUnavailable
              else let w = readWindow d key tileSize intersection
                   in if src_width w \<le> 0 \<or> src_height w \<le> 0 \<or> target_width w \<le> 0 \<or>
                         target_height w \<le> 0
                      then Inl ResourceUnavailable
                      else let bands = selectBands (warpedDS d)
                           in case (bandRed bands, bandGreen bands, bandBlue bands) of
                                (Some bRed, Some bGreen, Some bBlue) \<Rightarrow>
                                  Inr (createImage_rgb d mem tileSize w bRed bGreen bBlue (bandAlpha bands))
                              | _ \<Rightarrow>
                                  (case bandGray bands of
                                     Some bGray \<Rightarrow>
                                       Inr (createImage_gray d mem tileSize w bGray (bandAlpha bands))
                                   | None \<Rightarrow>
                                       (case bandPalette bands of
                                          Some bPalette \<Rightarrow>
                                            Inr (createImage_palette d mem tileSize w bPalette)
                                        | None \<Rightarrow> Inl ResourceUnavailable)))"

subsection \<open>HeightfieldTileSampler (GDAL.cpp, lines 1213-1574)\<close>

text \<open>
  Modelled from the spec: \<open>Heightfield\<close> (rocky/Heightfield.h is not among the
  sources), "a fixed-size float buffer": \<open>width * height\<close> samples, the sample
  \<open>heightAt(c, r)\<close> at index \<open>r * width + c\<close> of the buffer.
\<close>

record Heightfield =
  hf_width :: nat
  hf_height :: nat
  heights :: Buffer

definition create_heightfield :: "nat \<Rightarrow> nat \<Rightarrow> real \<Rightarrow> Heightfield" where
  "create_heightfield w h v = \<lparr>hf_width = w, hf_height = h, heights = (\<lambda>_. v)\<rparr>"

definition heightAt :: "Heightfield \<Rightarrow> nat \<Rightarrow> nat \<Rightarrow> real" where
  "heightAt hf c r = heights hf (r * hf_width hf + c)"

definition setHeightAt :: "nat \<Rightarrow> nat \<Rightarrow> real \<Rightarrow> Heightfield \<Rightarrow> Heightfield" where
  "setHeightAt c r h hf = hf\<lparr>heights := (heights hf)(r * hf_width hf + c := h)\<rparr>"

text \<open>\<open>getInterpolatedDEMValueWorkspace\<close> (lines 1213-1294), with the \<open>#else\<close> branch of its \<open>#if 0\<close>.\<close>

definition getInterpolatedDEMValueWorkspace ::
  "Driver \<Rightarrow> GDALRasterBand \<Rightarrow> real \<Rightarrow> real \<Rightarrow> Buffer \<Rightarrow> int \<Rightarrow> int \<Rightarrow> real" where
  "getInterpolatedDEMValueWorkspace d band u v data w h =
     (let nd = (case GetNoDataValue band of Some value \<Rightarrow> value | None \<Rightarrow> - 32767);
          c = clamp u 0 1 * real_of_int w;
          r = clamp v 0 1 * real_of_int h
      in if interpolation (layer d) = NEAREST
         then (let x = c_int (clamp c 0 (real_of_int w - 1));
                   y = c_int (clamp r 0 (real_of_int h - 1));
                   result = data (nat (y * w + x))
               in if \<not> isValidValue_nodata d result nd then NO_DATA_VALUE d else result)
         else (let col_min = clamp \<lfloor>c\<rfloor> 0 (w - 1);
                   col_max = clamp \<lceil>c\<rceil> 0 (w - 1);
                   row_min = clamp \<lfloor>r\<rfloor> 0 (h - 1);
                   row_max = clamp \<lceil>r\<rceil> 0 (h - 1);
                   NW = data (nat (row_min * w + col_min));
                   NE = data (nat (row_min * w + col_max));
                   SW = data (nat (row_max * w + col_min));
                   SE = data (nat (row_max * w + col_max))
               in if \<not> isValidValue_nodata d NW nd \<or> \<not> isValidValue_nodata d NE nd \<or>
                     \<not> isValidValue_nodata d SW nd \<or> \<not> isValidValue_nodata d SE nd
                  then NO_DATA_VALUE d
                  else (let west_weight = clamp ((real_of_int col_max + 0.5) - c) 0 1;
                            south_weight = clamp ((real_of_int row_max + 0.5) - r) 0 1
                        in if interpolation (layer d) = AVERAGE
                           then (let h0 = west_weight * south_weight * SW;
                                     h1 = west_weight * (1 - south_weight) * NW;
                                     h2 = (1 - west_weight) * south_weight * SE;
                                     h3 = (1 - west_weight) * (1 - south_weight) * NE
                                 in h0 + h1 + h2 + h3)
                           else (let south = west_weight * SW + (1 - west_weight) * SE;
                                     north = west_weight * NW + (1 - west_weight) * NE
                                 in south_weight * south + (1 - south_weight) * north))))"

text \<open>
  \<open>getInterpolatedDEMValue\<close> (lines 1296-1442). The four corner heights are
  uninitialised locals that \<open>detail::rasterIO\<close> fills; the helper's result, which
  tells whether the read succeeded, is not looked at.
\<close>

definition getInterpolatedDEMValue ::
  "Driver \<Rightarrow> Indeterminate \<Rightarrow> GDALRasterBand \<Rightarrow> real \<Rightarrow> real \<Rightarrow> bool \<Rightarrow> real" where
  "getInterpolatedDEMValue d mem band x y applyOffset =
     (let (c, r) = geoToPixel d x y;
          alg = (case interpolation (layer d) of
                   AVERAGE \<Rightarrow> GRIORA_Average
                 | BILINEAR \<Rightarrow> GRIORA_Bilinear
                 | CUBIC \<Rightarrow> GRIORA_Cubic
                 | CUBICSPLINE \<Rightarrow> GRIORA_CubicSpline
                 | NEAREST \<Rightarrow> GRIORA_NearestNeighbour)
      in case InterpolateAtPoint band c r alg of
           Some realPart \<Rightarrow> realPart
         | None \<Rightarrow>
            (let xs = real_of_int (RasterXSize (warpedDS d));
                 ys = real_of_int (RasterYSize (warpedDS d));
                 (r, c) = (if applyOffset then (r - 0.5, c - 0.5) else (r, c));
                 c = (if applyOffset
                      then (if c < 0 \<and> c \<ge> - 0.5 then 0
                            else if c > xs - 1 \<and> c \<le> xs - 0.5 then xs - 1 else c)
                      else c);
                 r = (if applyOffset
                      then (if r < 0 \<and> r \<ge> - 0.5 then 0
                            else if r > ys - 1 \<and> r \<le> ys - 0.5 then ys - 1 else r)
                      else r)
             in if c < 0 \<or> r < 0 \<or> c > xs - 1 \<or> r > ys - 1 then NO_DATA_VALUE d
                else if interpolation (layer d) = NEAREST
                then (let result = snd (rasterIO band GF_Read (c_round c) (c_round r) 1 1 (\<lambda>_. 0) 1 1
                                          GDT_Float32 0 0 NEAREST) 0
                      in if \<not> isValidValue d result band then NO_DATA_VALUE d else result)
                else (let rowMin = max \<lfloor>r\<rfloor> 0;
                          rowMax = max (min \<lceil>r\<rceil> (RasterYSize (warpedDS d) - 1)) 0;
                          colMin = max \<lfloor>c\<rfloor> 0;
                          colMax = max (min \<lceil>c\<rceil> (RasterXSize (warpedDS d) - 1)) 0;
                          rowMin = (if rowMin > rowMax then rowMax else rowMin);
                          colMin = (if colMin > colMax then colMax else colMin);
                          read = (\<lambda>col row buf. snd (rasterIO band GF_Read (real_of_int col)
                                    (real_of_int row) 1 1 buf 1 1 GDT_Float32 0 0 NEAREST) 0);
                          llHeight = read colMin rowMin (mem ''llHeight'');
                          ulHeight = read colMin rowMax (mem ''ulHeight'');
                          lrHeight = read colMax rowMin (mem ''lrHeight'');
                          urHeight = read colMax rowMax (mem ''urHeight'')
                      in if \<not> isValidValue d urHeight band \<or> \<not> isValidValue d llHeight band \<or>
                            \<not> isValidValue d ulHeight band \<or> \<not> isValidValue d lrHeight band
                         then NO_DATA_VALUE d
                         else if interpolation (layer d) = AVERAGE
                         then (let x_rem = c - real_of_int (c_int c);
                                   y_rem = r - real_of_int (c_int r);
                                   w00 = (1 - y_rem) * (1 - x_rem) * llHeight;
                                   w01 = (1 - y_rem) * x_rem * lrHeight;
                                   w10 = y_rem * (1 - x_rem) * ulHeight;
                                   w11 = y_rem * x_rem * urHeight
                               in w00 + w01 + w10 + w11)
                         else if interpolation (layer d) = BILINEAR
                         then (if colMax = colMin \<and> rowMax = rowMin then llHeight
                               else if colMax = colMin
                               then (real_of_int rowMax - r) * llHeight + (r - real_of_int rowMin) * ulHeight
                               else if rowMax = rowMin
                               then (real_of_int colMax - c) * llHeight + (c - real_of_int colMin) * lrHeight
                               else (let r1 = (real_of_int colMax - c) * llHeight
                                              + (c - real_of_int colMin) * lrHeight;
                                         r2 = (real_of_int colMax - c) * ulHeight
                                              + (c - real_of_int colMin) * urHeight
                                     in (real_of_int rowMax - r) * r1 + (r - real_of_int rowMin) * r2))
                         else 0)))"

text \<open>
  The loop nest of \<open>createHeightfield\<close>: for every row \<open>r\<close> and column \<open>c\<close> below
  \<open>tileSize\<close>, \<open>hf->heightAt(c, r) = h\<close>.
\<close>

definition fillHeightfield :: "nat \<Rightarrow> (nat \<Rightarrow> nat \<Rightarrow> real) \<Rightarrow> Heightfield \<Rightarrow> Heightfield" where
  "fillHeightfield tileSize h hf =
     fold (\<lambda>r. fold (\<lambda>c. setHeightAt c r (h c r)) [0..<tileSize]) [0..<tileSize] hf"

text \<open>Lines 1487-1502: the area convention with an interpolation other than nearest.\<close>

definition createHeightfield_area ::
  "Driver \<Rightarrow> Indeterminate \<Rightarrow> GDALRasterBand \<Rightarrow> TileKey \<Rightarrow> nat \<Rightarrow> Heightfield \<Rightarrow> Heightfield" where
  "createHeightfield_area d mem band key tileSize hf =
     (let tile_xmin = xmin (ext (extent key)); tile_ymin = ymin (ext (extent key));
          tile_xmax = xmax (ext (extent key)); tile_ymax = ymax (ext (extent key));
          dx = (tile_xmax - tile_xmin) / real (tileSize - 1);
          dy = (tile_ymax - tile_ymin) / real (tileSize - 1)
      in fillHeightfield tileSize
           (\<lambda>c r. let y = tile_ymin + dy * real r;
                      x = tile_xmin + dx * real c
                  in getInterpolatedDEMValue d mem band x y True * linearUnits d)
           hf)"

text \<open>
  Lines 1504-1571: the point convention, or nearest-neighbour interpolation. The
  window is read into the workspace in one \<open>RasterIO\<close> call, whose failure ends the
  request; the tile is sampled from the workspace, and the band's scale and offset are
  applied to the whole tile afterwards.
\<close>

record WorkspaceWindow =
  col_min :: int
  col_max :: int
  row_min :: int
  row_max :: int

text \<open>Lines 1506-1517: the pixel window of the tile, half a pixel wider on each side.\<close>

definition workspaceWindow :: "Driver \<Rightarrow> GDALRasterBand \<Rightarrow> TileKey \<Rightarrow> WorkspaceWindow" where
  "workspaceWindow d band key =
     (let tile_xmin = xmin (ext (extent key)); tile_ymin = ymin (ext (extent key));
          tile_xmax = xmax (ext (extent key)); tile_ymax = ymax (ext (extent key));
          (tile_col_min, tile_row_max) = geoToPixel d tile_xmin tile_ymin;
          (tile_col_max, tile_row_min) = geoToPixel d tile_xmax tile_ymax;
          ws_buffer = 0.5
      in \<lparr>col_min = c_int (max 0 (real_of_int \<lfloor>tile_col_min - ws_buffer\<rfloor>)),
          col_max = c_int (min (real_of_int \<lceil>tile_col_max + ws_buffer\<rceil>) (real_of_int (GetXSize band) - 1)),
          row_min = c_int (max 0 (real_of_int \<lfloor>tile_row_min - ws_buffer\<rfloor>)),
          row_max = c_int (min (real_of_int \<lceil>tile_row_max + ws_buffer\<rceil>) (real_of_int (GetYSize band) - 1))\<rparr>)"

text \<open>Lines 1526-1530: the one read of the workspace (no extra argument is passed).\<close>

definition workspaceRequest :: "WorkspaceWindow \<Rightarrow> nat \<Rightarrow> RasterIORequest" where
  "workspaceRequest ww tileSize =
     \<lparr>eRWFlag = GF_Read, nXOff = col_min ww, nYOff = row_min ww,
      nXSize = col_max ww - col_min ww + 1, nYSize = row_max ww - row_min ww + 1,
      nBufXSize = int tileSize, nBufYSize = int tileSize,
      eBufType = GDT_Float32, nPixelSpace = 0, nLineSpace = 0, psExtraArg = None\<rparr>"

text \<open>
  Lines 1542-1562: the position \<open>(u, 1 - v)\<close> of output sample \<open>(c, r)\<close> in the extent the
  workspace covers (\<open>v\<close> is inverted since the workspace is filled from north to south).
\<close>

definition workspacePosition ::
  "Driver \<Rightarrow> TileKey \<Rightarrow> nat \<Rightarrow> WorkspaceWindow \<Rightarrow> nat \<Rightarrow> nat \<Rightarrow> real \<times> real" where
  "workspacePosition d key tileSize ww c r =
     (let tile_xmin = xmin (ext (extent key)); tile_ymin = ymin (ext (extent key));
          tile_xmax = xmax (ext (extent key)); tile_ymax = ymax (ext (extent key));
          dx = (tile_xmax - tile_xmin) / real (tileSize - 1);
          dy = (tile_ymax - tile_ymin) / real (tileSize - 1);
          (buf_xmin, buf_ymin) = pixelToGeo d (real_of_int (col_min ww)) (real_of_int (row_max ww + 1));
          (buf_xmax, buf_ymax) = pixelToGeo d (real_of_int (col_max ww + 1)) (real_of_int (row_min ww));
          epsilon = 0.000001;
          y = tile_ymin + dy * real r;
          v = (y - buf_ymin) / (buf_ymax - buf_ymin);
          v = (if equiv v 0 epsilon then 0 else v);
          x = tile_xmin + dx * real c;
          u = (x - buf_xmin) / (buf_xmax - buf_xmin);
          u = (if equiv u 0 epsilon then 0 else u)
      in (u, 1 - v))"

text \<open>
  Lines 1564-1565: the height of output sample \<open>(c, r)\<close>, sampled from the workspace,
  before the band's scale and offset are applied.
\<close>

definition sampleWorkspace ::
  "Driver \<Rightarrow> GDALRasterBand \<Rightarrow> TileKey \<Rightarrow> nat \<Rightarrow> WorkspaceWindow \<Rightarrow> Buffer \<Rightarrow> nat \<Rightarrow> nat \<Rightarrow> real" where
  "sampleWorkspace d band key tileSize ww workspace c r =
     (let (u, v) = workspacePosition d key tileSize ww c r
      in getInterpolatedDEMValueWorkspace d band u v workspace (int tileSize) (int tileSize)
           * linearUnits d)"

definition createHeightfield_workspace ::
  "Driver \<Rightarrow> GDALRasterBand \<Rightarrow> TileKey \<Rightarrow> nat \<Rightarrow> Heightfield \<Rightarrow> Failure + Heightfield" where
  "createHeightfield_workspace d band key tileSize hf =
     (let ww = workspaceWindow d band key
      in case RasterIO band (workspaceRequest ww tileSize) of
           None \<Rightarrow> Inl ResourceUnavailable
         | Some workspace \<Rightarrow>
             (let hf = fillHeightfield tileSize (sampleWorkspace d band key tileSize ww workspace) hf
              in Inr (hf\<lparr>heights := applyScaleAndOffset band (heights hf) GDT_Float32
                                        (int tileSize) (int tileSize)\<rparr>)))"

text \<open>
  \<open>createHeightfield\<close>. The first band is taken for the data; a dataset without
  bands gives the source a null band to work with, which the model ends as
  \<open>UndefinedBehaviour\<close>. Divisions by \<open>tileSize - 1\<close> are the reals' (a tile size below
  2 makes the source divide by zero or wrap around).
\<close>

definition createHeightfield ::
  "Driver \<Rightarrow> Indeterminate \<Rightarrow> TileKey \<Rightarrow> nat \<Rightarrow> IOOptions \<Rightarrow> Failure + Heightfield" where
  "createHeightfield d mem key tileSize io =
     (if (case maxDataLevel d of Some m \<Rightarrow> level key > m | None \<Rightarrow> False)
      then Inl ResourceUnavailable
      else if canceled io then Inl ResourceUnavailable
      else let intersection = intersectionSameSRS (extent key) (extents d)
           in if \<not> valid intersection then Inl ResourceUnavailable
              else let hf = create_heightfield tileSize tileSize (NO_DATA_VALUE d)
                   in case GetRasterBand (warpedDS d) 1 of
                        None \<Rightarrow> Inl UndefinedBehaviour
                      | Some band \<Rightarrow>
                          if pixelIsArea d \<and> interpolation (layer d) \<noteq> NEAREST
                          then Inr (createHeightfield_area d mem band key tileSize hf)
                          else createHeightfield_workspace d band key tileSize hf)"

subsection \<open>DatasetBootstrap: blocks of \<open>Driver::open\<close> (GDAL.cpp, lines 365-697)\<close>







text \<open>
  Lines 619-623: the loop that counts the levels. Over the reals it need not end (a
  resolution that is not positive keeps it running), so not returning is the value
  \<open>None\<close>.
\<close>

partial_function (option) maxDataLevelLoop :: "real \<Rightarrow> real \<Rightarrow> real \<Rightarrow> nat \<Rightarrow> nat option" where
  "maxDataLevelLoop maxResolution w h lvl =
     (if w \<ge> maxResolution \<and> h \<ge> maxResolution
      then maxDataLevelLoop maxResolution (w * 0.5) (h * 0.5) (lvl + 1)
      else Some lvl)"

text \<open>
  Lines 604-628: the member \<open>maxDataLevel\<close> after the block (the outer \<open>None\<close>: the loop
  does not return). The inputs are the data bounds \<open>minX, minY, maxX, maxY\<close> computed
  from the raster corners, the raster size, the configured \<open>maxDataLevel\<close>, the
  tile size and the profile's \<open>tileDimensions(0)\<close> (rocky/Profile.cpp is not among the
  sources; the pair is a parameter).
\<close>

definition open_maxDataLevel ::
  "nat option \<Rightarrow> real \<times> real \<Rightarrow> nat \<Rightarrow> real \<Rightarrow> real \<Rightarrow> real \<Rightarrow> real \<Rightarrow> int \<Rightarrow> int \<Rightarrow> nat option option" where
  "open_maxDataLevel configured tileDimensions0 tileSize minX minY maxX maxY xsize ysize =
     (let resolutionX = (maxX - minX) / real_of_int xsize;
          resolutionY = (maxY - minY) / real_of_int ysize;
          maxResolution = min resolutionX resolutionY
      in case configured of
           Some m \<Rightarrow> Some (Some m)
         | None \<Rightarrow>
             if maxResolution > 0
             then (let (w, h) = tileDimensions0;
                       w = w / real tileSize; h = h / real tileSize
                   in map_option Some (maxDataLevelLoop maxResolution w h 0))
             else Some (Some 1))"

text \<open>
  Modelled from the spec: \<open>util::toLower\<close> (rocky/Utils.h is not among the sources), the
  string with its capital letters A to Z in lower case.
\<close>

definition toLower :: "string \<Rightarrow> string" where
  "toLower str =
     map (\<lambda>ch. let n = (of_char ch :: nat) in if 65 \<le> n \<and> n \<le> 90 then char_of (n + 32) else ch) str"

text \<open>
  Lines 637-671: the bounds \<open>_bounds\<close> and the local flag \<open>clamped\<close> after the block, for
  the data bounds, the raster size, the \<open>AREA_OR_POINT\<close> item of the source and whether
  the spatial reference is geodetic.
\<close>

definition open_bounds ::
  "real \<Rightarrow> real \<Rightarrow> real \<Rightarrow> real \<Rightarrow> int \<Rightarrow> int \<Rightarrow> string option \<Rightarrow> bool \<Rightarrow> Box \<times> bool" where
  "open_bounds minX minY maxX maxY xsize ysize pora srs_isGeodetic =
     (let resolutionX = (maxX - minX) / real_of_int xsize;
          resolutionY = (maxY - minY) / real_of_int ysize;
          b = \<lparr>xmin = minX, ymin = minY, xmax = maxX, ymax = maxY\<rparr>;
          is_area = (case pora of Some str \<Rightarrow> toLower str = ''area'' | None \<Rightarrow> False);
          clamped = False
      in if srs_isGeodetic
         then (let b = (if is_area \<and> (xmin b < - 180 \<or> xmax b > 180)
                        then b\<lparr>xmin := xmin b + resolutionX * 0.5, xmax := xmax b - resolutionX * 0.5\<rparr>
                        else b);
                   (b, clamped) = (if xmax b - xmin b > 360
                                   then (b\<lparr>xmin := - 180, xmax := 180\<rparr>, True)
                                   else (b, clamped));
                   b = (if is_area \<and> (ymin b < - 90 \<or> ymax b > 90)
                        then b\<lparr>ymin := ymin b + resolutionY * 0.5, ymax := ymax b - resolutionY * 0.5\<rparr>
                        else b);
                   (b, clamped) = (if ymax b - ymin b > 180
                                   then (b\<lparr>ymin := - 90, ymax := 90\<rparr>, True)
                                   else (b, clamped))
               in (b, clamped))
         else (b, clamped))"


subsection \<open>Example datasets\<close>

text \<open>
  Concrete inputs on which the properties below are instantiated: a 2 x 2 raster over
  the square from \<open>(0, 0)\<close> to \<open>(2, 2)\<close> with one float band holding 10, 20, 30, 40, and a
  tile key with the same extent.
\<close>

definition transformOf :: "real list \<Rightarrow> Transform" where
  "transformOf xs = (\<lambda>i. xs ! i)"

definition exampleBand :: GDALRasterBand where
  "exampleBand =
     \<lparr>GetColorInterpretation = GCI_Undefined, GetNoDataValue = Some (- 9999), GetScale = 1,
      GetOffset = 0, GetRasterDataType = GDT_Float32,
      GetColorTable = \<lparr>GetColorEntry = (\<lambda>_. None), GetPaletteInterpretation = GPI_RGB\<rparr>,
      GetXSize = 2, GetYSize = 2,
      RasterIO = (\<lambda>_. Some (\<lambda>i. [10, 20, 30, 40] ! i)),
      InterpolateAtPoint = (\<lambda>_ _ _. None)\<rparr>"

definition exampleDataset :: GDALDataset where
  "exampleDataset =
     \<lparr>RasterXSize = 2, RasterYSize = 2, RasterBands = [exampleBand], SUBDATASETS = [],
      AREA_OR_POINT = Some ''Area''\<rparr>"

definition exampleExtent :: GeoExtent where
  "exampleExtent = \<lparr>isGeodetic = False, ext = \<lparr>xmin = 0, ymin = 0, xmax = 2, ymax = 2\<rparr>\<rparr>"

definition exampleDriver :: Driver where
  "exampleDriver =
     \<lparr>geotransform = transformOf [0, 1, 0, 2, 0, - 1],
      invtransform = transformOf [0, 1, 0, 2, 0, - 1],
      warpedDS = exampleDataset,
      bounds = \<lparr>xmin = 0, ymin = 0, xmax = 2, ymax = 2\<rparr>,
      extents = exampleExtent,
      linearUnits = 1, pixelIsArea = False,
      layer = \<lparr>interpolation = NEAREST, subDataset = None\<rparr>,
      maxDataLevel = None, noDataValue = None, minValidValue = None, maxValidValue = None,
      NO_DATA_VALUE = - 340282346638528859811704183484516925440\<rparr>"

definition exampleKey :: TileKey where
  "exampleKey = \<lparr>level = 0, extent = exampleExtent\<rparr>"



text \<open>A tile key east of the example dataset.\<close>

definition farKey :: TileKey where
  "farKey = \<lparr>level = 0, extent = \<lparr>isGeodetic = False, ext = \<lparr>xmin = 3, ymin = 0, xmax = 5, ymax = 2\<rparr>\<rparr>\<rparr>"



text \<open>
  An area-convention dataset, sampled bilinearly, whose band fails every read; and a
  point-convention dataset whose band holds only its nodata value and declares the
  scale 2 and the offset \<open>- NO_DATA_VALUE\<close>.
\<close>

definition failingBand :: GDALRasterBand where
  "failingBand = exampleBand\<lparr>RasterIO := (\<lambda>_. None)\<rparr>"

definition failingDriver :: Driver where
  "failingDriver =
     exampleDriver\<lparr>warpedDS := exampleDataset\<lparr>RasterBands := [failingBand]\<rparr>,
                   pixelIsArea := True,
                   layer := \<lparr>interpolation = BILINEAR, subDataset = None\<rparr>\<rparr>"



section \<open>Properties\<close>

subsection \<open>CoordinateTransform\<close>



lemma adjugate_inverse_ok:
  assumes "gt 1 * gt 5 - gt 2 * gt 4 \<noteq> 0"
  shows "inverse_transform gt (adjugate_inverse gt)"
proof -
  define det where "det = gt 1 * gt 5 - gt 2 * gt 4"
  have d: "det \<noteq> 0" using assms by (simp add: det_def)
  have iv: "adjugate_inverse gt 0 = (gt 2 * gt 3 - gt 0 * gt 5) / det"
    "adjugate_inverse gt 1 = gt 5 / det" "adjugate_inverse gt 2 = - gt 2 / det"
    "adjugate_inverse gt 3 = (gt 0 * gt 4 - gt 1 * gt 3) / det"
    "adjugate_inverse gt 4 = - gt 4 / det" "adjugate_inverse gt 5 = gt 1 / det"
    by (simp_all add: adjugate_inverse_def det_def Let_def)
  have 1: "gt 5 / det * gt 1 + - gt 2 / det * gt 4 = 1"
  proof -
    have "gt 5 / det * gt 1 + - gt 2 / det * gt 4 = (gt 1 * gt 5 - gt 2 * gt 4) / det"
      by (simp add: diff_divide_distrib mult.commute)
    then show ?thesis using d by (simp add: det_def)
  qed
  have 2: "gt 5 / det * gt 2 + - gt 2 / det * gt 5 = 0"
    by (simp add: mult.commute)
  have 3: "- gt 4 / det * gt 1 + gt 1 / det * gt 4 = 0"
    by (simp add: mult.commute)
  have 4: "- gt 4 / det * gt 2 + gt 1 / det * gt 5 = 1"
  proof -
    have "- gt 4 / det * gt 2 + gt 1 / det * gt 5 = (gt 1 * gt 5 - gt 2 * gt 4) / det"
      by (simp add: diff_divide_distrib mult.commute)
    then show ?thesis using d by (simp add: det_def)
  qed
  have 5: "(gt 2 * gt 3 - gt 0 * gt 5) / det + gt 5 / det * gt 0 + - gt 2 / det * gt 3 = 0"
    by (simp add: diff_divide_distrib mult.commute)
  have 6: "(gt 0 * gt 4 - gt 1 * gt 3) / det + - gt 4 / det * gt 0 + gt 1 / det * gt 3 = 0"
    by (simp add: diff_divide_distrib mult.commute)
  show ?thesis
    unfolding inverse_transform_def iv
    using 1 2 3 4 5 6 by blast
qed



subsection \<open>DatasetBootstrap: the sub-dataset\<close>





subsection \<open>DatasetBootstrap: the maximum data level\<close>






text \<open>
  Claim C9: if \<open>maxDataLevel\<close> is not configured and the per-pixel resolution (the
  minimum of the x and y resolutions) is not strictly positive, \<open>open\<close> sets
  \<open>maxDataLevel\<close> to 1 and does not run the halving loop.
\<close>

theorem maxDataLevel_one_without_resolution:
  assumes "\<not> 0 < min ((maxX - minX) / real_of_int xsize) ((maxY - minY) / real_of_int ysize)"
  shows "open_maxDataLevel None td tileSize minX minY maxX maxY xsize ysize = Some (Some 1)"
  using assms by (auto simp add: open_maxDataLevel_def Let_def)

theorem maxDataLevel_one_without_resolution_witness:
  "\<not> 0 < min ((180 - (- 180)) / real_of_int 360) ((- 90 - 90) / real_of_int 180) \<and>
   open_maxDataLevel None (180, 180) 256 (- 180) 90 180 (- 90) 360 180 = Some (Some 1)"
proof -
  have h: "\<not> 0 < min ((180 - (- 180)) / real_of_int 360) ((- 90 - 90) / real_of_int 180)" by simp
  from h maxDataLevel_one_without_resolution [OF h, where td = "(180, 180)" and tileSize = 256]
  show ?thesis by blast
qed

subsection \<open>DatasetBootstrap: the bounds\<close>

lemma toLower_Area: "toLower ''Area'' = ''area''"
  by code_simp

text \<open>
  Claim C4, as stated: a geodetic, area-convention dataset with declared bounds
  \<open>xmin = -190\<close>, \<open>xmax = 190\<close> has its x-bounds clamped to \<open>[-180, 180]\<close> and the flag
  set. It fails for a raster of 10 columns: the half-pixel shrink (19 degrees on each
  side) leaves a span of 342 degrees, nothing is clamped, and the bounds are
  \<open>[-171, 171]\<close>.
\<close>

theorem bounds_not_clamped_for_coarse_raster:
  "open_bounds (- 190) (- 90) 190 90 10 5 (Some ''Area'') True
     = (\<lparr>xmin = - 171, ymin = - 90, xmax = 171, ymax = 90\<rparr>, False)"
  by (simp add: open_bounds_def toLower_Area Let_def)

text \<open>
  Claim C4, amended: for a geodetic, area-convention dataset whose declared bounds are
  \<open>xmin = -190\<close>, \<open>xmax = 190\<close> and whose raster has more than 19 columns (so that the
  bounds still span more than 360 degrees after the half-pixel shrink), \<open>open\<close> clamps
  the x-bounds to \<open>[-180, 180]\<close> and sets the flag \<open>clamped\<close>.
\<close>

theorem bounds_clamped:
  assumes "19 < xsize" and "toLower str = ''area''"
  shows "xmin (fst (open_bounds (- 190) minY 190 maxY xsize ysize (Some str) True)) = - 180 \<and>
         xmax (fst (open_bounds (- 190) minY 190 maxY xsize ysize (Some str) True)) = 180 \<and>
         snd (open_bounds (- 190) minY 190 maxY xsize ysize (Some str) True)"
proof -
  from assms(1) have "380 / real_of_int xsize < 20" by (simp add: field_simps)
  then have "190 - 380 / real_of_int xsize * 0.5 - (- 190 + 380 / real_of_int xsize * 0.5) > 360"
    by simp
  then show ?thesis using assms(2)
    by (simp add: open_bounds_def Let_def split: prod.splits if_splits)
qed

theorem bounds_clamped_witness:
  "(19 :: int) < 380 \<and> toLower ''Area'' = ''area'' \<and>
   xmin (fst (open_bounds (- 190) (- 90) 190 90 380 180 (Some ''Area'') True)) = - 180 \<and>
   xmax (fst (open_bounds (- 190) (- 90) 190 90 380 180 (Some ''Area'') True)) = 180 \<and>
   snd (open_bounds (- 190) (- 90) 190 90 380 180 (Some ''Area'') True)"
proof -
  have h: "(19 :: int) < 380" by simp
  from h toLower_Area
    bounds_clamped [OF h toLower_Area, where minY = "- 90" and maxY = 90 and ysize = 180]
  show ?thesis by blast
qed

subsection \<open>WindowPlanner: tiles outside the coverage\<close>

lemma intersection_has_common_point:
  assumes "valid (intersectionSameSRS a b)"
  shows "\<exists>x y. contains a x y \<and> contains b x y"
proof -
  let ?x = "max (xmin (ext a)) (xmin (ext b))"
  let ?y = "max (ymin (ext a)) (ymin (ext b))"
  from assms have "?x \<le> min (xmax (ext a)) (xmax (ext b))" "?y \<le> min (ymax (ext a)) (ymax (ext b))"
    by (simp_all add: valid_def intersectionSameSRS_def)
  then have "contains a ?x ?y \<and> contains b ?x ?y"
    by (simp add: contains_def)
  then show ?thesis by blast
qed

text \<open>
  Claim C2: for every tile key whose extent does not intersect the dataset's extent (the
  two share no point), \<open>createImage\<close> and \<open>createHeightfield\<close> both return
  \<open>ResourceUnavailable\<close>.
\<close>

theorem no_tile_outside_coverage:
  assumes "\<not> (\<exists>x y. contains (extent key) x y \<and> contains (extents d) x y)"
  shows "createImage d mem key tileSize io = Inl ResourceUnavailable \<and>
         createHeightfield d mem key tileSize io = Inl ResourceUnavailable"
proof -
  from assms intersection_has_common_point
  have "\<not> valid (intersectionSameSRS (extent key) (extents d))" by blast
  then show ?thesis by (simp add: createImage_def createHeightfield_def Let_def)
qed

theorem no_tile_outside_coverage_witness:
  "\<not> (\<exists>x y. contains (extent farKey) x y \<and> contains (extents exampleDriver) x y) \<and>
   createImage exampleDriver (\<lambda>_ _. 0) farKey 256 \<lparr>canceled = False\<rparr> = Inl ResourceUnavailable \<and>
   createHeightfield exampleDriver (\<lambda>_ _. 0) farKey 256 \<lparr>canceled = False\<rparr> = Inl ResourceUnavailable"
proof -
  have h: "\<not> (\<exists>x y. contains (extent farKey) x y \<and> contains (extents exampleDriver) x y)"
    by (auto simp add: contains_def farKey_def exampleDriver_def exampleExtent_def)
  from h no_tile_outside_coverage [OF h] show ?thesis by blast
qed

subsection \<open>ImageTileCompositor: average and bilinear\<close>


lemma geoToPixel_layer [simp]: "geoToPixel (d\<lparr>layer := l\<rparr>) = geoToPixel d"
  by (simp add: geoToPixel_def fun_eq_iff Let_def)

lemma readWindow_layer [simp]: "readWindow (d\<lparr>layer := l\<rparr>) = readWindow d"
  by (simp add: readWindow_def fun_eq_iff Let_def)

lemma isValidValue_layer [simp]: "isValidValue (d\<lparr>layer := l\<rparr>) = isValidValue d"
  by (simp add: isValidValue_def fun_eq_iff)

lemma getValidElevationValue_layer [simp]:
  "getValidElevationValue (d\<lparr>layer := l\<rparr>) = getValidElevationValue d"
  by (simp add: getValidElevationValue_def fun_eq_iff)

lemma paletteColor_layer [simp]: "paletteColor (d\<lparr>layer := l\<rparr>) = paletteColor d"
  by (simp add: paletteColor_def fun_eq_iff Let_def split: prod.splits)






subsection \<open>ImageTileCompositor: a palette index without a colour\<close>

















subsection \<open>HeightfieldTileSampler: the samples of a tile\<close>

lemma hf_width_setHeightAt: "hf_width (setHeightAt c r v hf) = hf_width hf"
  by (simp add: setHeightAt_def)

lemma heights_setHeightAt: "heights (setHeightAt c r v hf) = (heights hf)(r * hf_width hf + c := v)"
  by (simp add: setHeightAt_def)

lemma fill_row_width:
  "hf_width (fold (\<lambda>c. setHeightAt c r (q c)) [0..<m] hf) = hf_width hf"
  by (induction m) (simp_all add: hf_width_setHeightAt)

lemma fill_row_heights:
  "heights (fold (\<lambda>c. setHeightAt c r (q c)) [0..<m] hf) i =
     (if r * hf_width hf \<le> i \<and> i < r * hf_width hf + m then q (i - r * hf_width hf)
      else heights hf i)"
proof (induction m)
  case 0
  then show ?case by simp
next
  case (Suc m)
  show ?case
  proof (cases "i = r * hf_width hf + m")
    case True
    then show ?thesis by (simp add: heights_setHeightAt fill_row_width)
  next
    case False
    then show ?thesis using Suc.IH by (auto simp add: heights_setHeightAt fill_row_width)
  qed
qed

lemma fill_rows_width:
  "hf_width (fold (\<lambda>r. fold (\<lambda>c. setHeightAt c r (h c r)) [0..<W]) [0..<n] hf) = hf_width hf"
  by (induction n) (simp_all add: fill_row_width)

lemma row_index:
  fixes i n W :: nat
  assumes "n * W \<le> i" and "i < n * W + W"
  shows "i mod W = i - n * W" and "i div W = n"
proof -
  from assms have W: "0 < W" by (cases W) auto
  obtain j where j: "i = n * W + j" "j < W" using assms by (metis add.commute le_Suc_ex nat_add_left_cancel_less)
  then show "i div W = n" using W by simp
  from j show "i mod W = i - n * W" by simp
qed

lemma fill_rows_heights:
  assumes "hf_width hf = W"
  shows "heights (fold (\<lambda>r. fold (\<lambda>c. setHeightAt c r (h c r)) [0..<W]) [0..<n] hf) i =
     (if i < n * W then h (i mod W) (i div W) else heights hf i)"
proof (induction n)
  case 0
  then show ?case by simp
next
  case (Suc n)
  let ?prev = "fold (\<lambda>r. fold (\<lambda>c. setHeightAt c r (h c r)) [0..<W]) [0..<n] hf"
  have w: "hf_width ?prev = W" using assms by (simp add: fill_rows_width)
  have step: "heights (fold (\<lambda>r. fold (\<lambda>c. setHeightAt c r (h c r)) [0..<W]) [0..<Suc n] hf) i =
      (if n * W \<le> i \<and> i < n * W + W then h (i - n * W) n else heights ?prev i)"
    by (simp add: fill_row_heights w)
  show ?case
  proof (cases "n * W \<le> i \<and> i < n * W + W")
    case True
    then have "i mod W = i - n * W" "i div W = n" using row_index by blast+
    with True step show ?thesis by simp
  next
    case False
    with step Suc.IH show ?thesis by auto
  qed
qed

lemma fillHeightfield_heightAt:
  assumes "hf_width hf = T" and "c < T" and "r < T"
  shows "heightAt (fillHeightfield T h hf) c r = h c r"
    and "hf_width (fillHeightfield T h hf) = T"
proof -
  have lt: "r * T + c < T * T"
  proof -
    have "r * T + c < r * T + T" using assms(2) by simp
    also have "\<dots> = Suc r * T" by simp
    also have "\<dots> \<le> T * T" using assms(3) by (simp only: mult_le_mono1 Suc_leI)
    finally show ?thesis .
  qed
  show w: "hf_width (fillHeightfield T h hf) = T"
    using assms(1) by (simp add: fillHeightfield_def fill_rows_width)
  have "heightAt (fillHeightfield T h hf) c r = heights (fillHeightfield T h hf) (r * T + c)"
    by (simp add: heightAt_def w)
  also have "\<dots> = h ((r * T + c) mod T) ((r * T + c) div T)"
    unfolding fillHeightfield_def using lt by (simp add: fill_rows_heights [OF assms(1)])
  also have "\<dots> = h c r" using assms(2) by simp
  finally show "heightAt (fillHeightfield T h hf) c r = h c r" .
qed

subsection \<open>HeightfieldTileSampler: read failures\<close>

lemma workspace_read_failure:
  assumes "GetRasterBand (warpedDS d) 1 = Some band"
    and "\<not> pixelIsArea d \<or> interpolation (layer d) = NEAREST"
    and "RasterIO band (workspaceRequest (workspaceWindow d band key) tileSize) = None"
  shows "createHeightfield d mem key tileSize io = Inl ResourceUnavailable"
  using assms by (auto simp add: createHeightfield_def createHeightfield_workspace_def Let_def)

lemma area_path_returns_tile:
  assumes "case maxDataLevel d of Some m \<Rightarrow> level key \<le> m | None \<Rightarrow> True"
    and "\<not> canceled io"
    and "valid (intersectionSameSRS (extent key) (extents d))"
    and "GetRasterBand (warpedDS d) 1 = Some band"
    and "pixelIsArea d" and "interpolation (layer d) \<noteq> NEAREST"
  shows "createHeightfield d mem key tileSize io =
           Inr (createHeightfield_area d mem band key tileSize
                  (create_heightfield tileSize tileSize (NO_DATA_VALUE d)))"
  using assms by (auto simp add: createHeightfield_def Let_def split: option.splits)

lemma failing_rasterIO:
  "rasterIO failingBand rw xoff yoff xsize ysize pData bufx bufy bufType ps ls interp = (False, pData)"
  by (simp add: rasterIO_def failingBand_def Let_def)

lemma failing_sample:
  "getInterpolatedDEMValue failingDriver (\<lambda>_ _. 42) failingBand 0 0 True = 42"
proof -
  have g: "geoToPixel failingDriver 0 0 = (0, 2)"
    by (simp add: geoToPixel_def failingDriver_def exampleDriver_def exampleDataset_def
        transformOf_def equiv_def Let_def)
  have v: "isValidValue failingDriver 42 failingBand"
    by (simp add: isValidValue_def failingDriver_def exampleDriver_def failingBand_def
        exampleBand_def has_value_def)
  have i: "interpolation (layer failingDriver) = BILINEAR"
    "InterpolateAtPoint failingBand c r alg = None"
    "RasterXSize (warpedDS failingDriver) = 2" "RasterYSize (warpedDS failingDriver) = 2" for c r alg
    by (simp_all add: failingDriver_def exampleDriver_def failingBand_def exampleBand_def
        exampleDataset_def)
  show ?thesis
    by (simp add: getInterpolatedDEMValue_def g i v failing_rasterIO Let_def)
qed

text \<open>
  Claim C3 says that a failed source read makes \<open>createHeightfield\<close> return
  \<open>ResourceUnavailable\<close> in both of its paths. The path that reads the workspace does so
  (\<open>workspace_read_failure\<close>). The area-convention path does not: whatever the reads
  do, a request that passes the guards returns a tile (\<open>area_path_returns_tile\<close>). For a band that
  fails every read, the request for the example tile succeeds, and the sample at
  \<open>(0, 0)\<close> of the tile is 42, the indeterminate content of the local \<open>llHeight\<close> that no
  read has filled.
\<close>

theorem read_failure_returns_tile_in_area_path:
  "(\<forall>request. RasterIO failingBand request = None) \<and>
   (case createHeightfield failingDriver (\<lambda>_ _. 42) exampleKey 2 \<lparr>canceled = False\<rparr> of
      Inl failure \<Rightarrow> False
    | Inr hf \<Rightarrow> heightAt hf 0 0 = 42)"
proof -
  have b: "GetRasterBand (warpedDS failingDriver) 1 = Some failingBand"
    by (simp add: GetRasterBand_def GetRasterCount_def failingDriver_def exampleDataset_def)
  have e: "createHeightfield failingDriver (\<lambda>_ _. 42) exampleKey 2 \<lparr>canceled = False\<rparr>
      = Inr (createHeightfield_area failingDriver (\<lambda>_ _. 42) failingBand exampleKey 2
          (create_heightfield 2 2 (NO_DATA_VALUE failingDriver)))"
    by (simp add: createHeightfield_def b Let_def)
       (simp add: failingDriver_def exampleDriver_def exampleKey_def exampleExtent_def valid_def
          intersectionSameSRS_def)
  have w0: "hf_width (create_heightfield 2 2 (NO_DATA_VALUE failingDriver)) = 2"
    by (simp add: create_heightfield_def)
  have "heightAt (createHeightfield_area failingDriver (\<lambda>_ _. 42) failingBand exampleKey 2
          (create_heightfield 2 2 (NO_DATA_VALUE failingDriver))) 0 0
        = getInterpolatedDEMValue failingDriver (\<lambda>_ _. 42) failingBand 0 0 True
            * linearUnits failingDriver"
    unfolding createHeightfield_area_def Let_def
    by (subst fillHeightfield_heightAt(1) [OF w0])
       (simp_all add: exampleKey_def exampleExtent_def)
  also have "\<dots> = 42" by (simp add: failing_sample) (simp add: failingDriver_def exampleDriver_def)
  finally show ?thesis by (simp add: e failingBand_def)
qed

subsection \<open>HeightfieldTileSampler: scale and offset\<close>







end
